theory Spec2Isabelle
  imports Complex_Main
begin

section \<open>Geometry primitives and scene elements\<close>

text \<open>
  JavaScript numbers are modelled as mathematical reals: the selector only compares,
  subtracts and takes absolute values and minima of coordinates, and the export only
  adds and compares them. Rounding, NaN and signed zeros are outside this model.
\<close>

record Point2D =
  x :: real
  y :: real

text \<open>
  \<open>Rect\<close> is the width/height pair of the selector sources (\<open>new Rect(0, 0)\<close>,
  \<open>boundRect\<close>); the asset size read by the export (\<open>asset.size.width\<close>) has the
  same shape. A bounding box of a region adds \<open>left\<close> and \<open>top\<close>; the client
  rectangles of the parent node are read through the same two fields.
\<close>

record Rect =
  width :: real
  height :: real

record IBoundingBox = Rect +
  left :: real
  top' :: real

type_synonym DOMRect = IBoundingBox

text \<open>
  Modelled from the spec: the scene elements \<open>CrossElement\<close>, \<open>RectElement\<close> and
  \<open>MaskElement\<close> are not among the sources. The spec gives them a position or a
  size, \<open>move\<close>, \<open>resize\<close>, \<open>show\<close> and \<open>hide\<close>, and no other behaviour. A
  cross is read as a point by the selector (\<open>this.crossA.x\<close>), so it extends
  \<open>Point2D\<close>.
\<close>

record CrossElement = Point2D +
  crossVisible :: bool

record RectElement = Point2D +
  rect :: Rect
  rectVisible :: bool

record MaskElement =
  maskVisible :: bool

definition showCross :: "CrossElement \<Rightarrow> CrossElement" where
  "showCross c = c\<lparr>crossVisible := True\<rparr>"

definition hideCross :: "CrossElement \<Rightarrow> CrossElement" where
  "hideCross c = c\<lparr>crossVisible := False\<rparr>"

definition showRect :: "RectElement \<Rightarrow> RectElement" where
  "showRect b = b\<lparr>rectVisible := True\<rparr>"

definition hideRect :: "RectElement \<Rightarrow> RectElement" where
  "hideRect b = b\<lparr>rectVisible := False\<rparr>"

definition showMask :: "MaskElement \<Rightarrow> MaskElement" where
  "showMask m = m\<lparr>maskVisible := True\<rparr>"

definition hideMask :: "MaskElement \<Rightarrow> MaskElement" where
  "hideMask m = m\<lparr>maskVisible := False\<rparr>"

definition moveRect :: "RectElement \<Rightarrow> 'a Point2D_scheme \<Rightarrow> RectElement" where
  "moveRect b p = b\<lparr>x := x p, y := y p\<rparr>"

definition resizeRect :: "RectElement \<Rightarrow> real \<Rightarrow> real \<Rightarrow> RectElement" where
  "resizeRect b w h = b\<lparr>rect := \<lparr>width = w, height = h\<rparr>\<rparr>"

text \<open>
  Modelled from the spec: \<open>RegionData\<close> and \<open>RegionData.BuildRectRegionData\<close> are not
  among the sources. The spec: a tagged variant over the shape kinds RECT, POLYGON and
  POINT, the RECT variant carrying x, y, width and height; \<open>BuildRectRegionData(x, y,
  w, h)\<close> "normalizes so that x,y is the top-left corner and w,h \<ge> 0 regardless of
  input corner order". The arguments of \<open>RectRegion\<close> are x, y, width, height.
\<close>

datatype RegionData =
  RectRegion real real real real
| PolygonRegion "Point2D list"
| PointRegion Point2D

definition BuildRectRegionData :: "real \<Rightarrow> real \<Rightarrow> real \<Rightarrow> real \<Rightarrow> RegionData" where
  "BuildRectRegionData rx ry w h =
     RectRegion (min rx (rx + w)) (min ry (ry + h)) \<bar>w\<bar> \<bar>h\<bar>"

section \<open>The rect selector\<close>

datatype SelectionModificator = RECT | SQUARE

record PointerEvent =
  clientX :: real
  clientY :: real
  pointerId :: nat

record KeyboardEvent =
  shiftKey :: bool
  ctrlKey :: bool

text \<open>
  The two optional hooks of the callbacks object: each field says whether
  \<open>typeof this.callbacks.\<dots> === "function"\<close> holds.
\<close>

record ISelectorCallbacks =
  onSelectionBegin :: bool
  onSelectionEnd :: bool

text \<open>
  What leaves the selector: the calls it makes on its parent node and on the callbacks
  object, in the order it makes them.
\<close>

datatype HostCall =
  SetPointerCapture nat
| ReleasePointerCapture nat
| OnSelectionBegin
| OnSelectionEnd RegionData

datatype error = TypeError

text \<open>
  The body of a pointer listener runs inside \<open>window.requestAnimationFrame\<close>: the
  listener only registers it. A registered body is kept as the listener's name and its
  event.
\<close>

datatype FrameRequest =
  EnterFrame PointerEvent
| LeaveFrame PointerEvent
| DownFrame PointerEvent
| UpFrame PointerEvent
| MoveFrame PointerEvent

text \<open>
  The fields of \<open>RectSelector\<close>, then what it inherits or reaches through its
  environment: \<open>boundRect\<close> and \<open>callbacks\<close> of the base class, the visibility of the
  selector's own node (set by the base class's \<open>show\<close> and \<open>hide\<close>), the client
  rectangles of \<open>parentNode\<close>, the frame requests not yet run, the calls made so far,
  and the errors thrown inside frame callbacks.
\<close>

record RectSelector =
  crossA :: CrossElement
  crossB :: CrossElement
  selectionBox :: RectElement
  mask :: MaskElement
  capturingState :: bool
  isTwoPoints :: bool
  selectionModificator :: SelectionModificator
  boundRect :: Rect
  callbacks :: ISelectorCallbacks
  nodeVisible :: bool
  clientRects :: "DOMRect list"
  frameRequests :: "FrameRequest list"
  calls :: "HostCall list"
  uncaught :: "error list"

subsection \<open>Inherited helpers\<close>

text \<open>
  Modelled from the spec: \<open>Selector.moveCross\<close> and \<open>CrossElement.move\<close> are not among
  the sources. The spec: crosses clamp themselves to the bound rectangle; while the
  square modifier is active the free corner is forced so that width equals height,
  the side being the larger of |dx| and |dy|, signed by the quadrant of the cursor
  relative to the reference corner. The clamp is applied first, the square constraint
  to the clamped point. The last two parameters are optional in the calls of the
  sources; a call that leaves them out passes \<open>False\<close> and \<open>None\<close>.
  \<open>hideAll\<close> and \<open>showAll\<close>, inherited as well, hide and show every element of
  the list they are given; the listeners below write out the elements one by one.
\<close>

definition boundToRect :: "Rect \<Rightarrow> 'a Point2D_scheme \<Rightarrow> Point2D" where
  "boundToRect r p =
     \<lparr>x = (if x p < 0 then 0 else if x p > width r then width r else x p),
      y = (if y p < 0 then 0 else if y p > height r then height r else y p)\<rparr>"

definition squareTo :: "'a Point2D_scheme \<Rightarrow> Point2D \<Rightarrow> Point2D" where
  "squareTo ref p =
     (let dx = x p - x ref;
          dy = y p - y ref;
          d = max \<bar>dx\<bar> \<bar>dy\<bar>
      in \<lparr>x = x ref + sgn dx * d, y = y ref + sgn dy * d\<rparr>)"

definition moveCross ::
  "Rect \<Rightarrow> CrossElement \<Rightarrow> 'a Point2D_scheme \<Rightarrow> bool \<Rightarrow> 'b Point2D_scheme option \<Rightarrow> CrossElement"
where
  "moveCross bound cross pointTo square ref =
     (let np = boundToRect bound pointTo;
          np' = (case ref of
                   Some r \<Rightarrow> if square then squareTo r np else np
                 | None \<Rightarrow> np)
      in cross\<lparr>x := x np', y := y np'\<rparr>)"

definition call :: "HostCall \<Rightarrow> RectSelector \<Rightarrow> RectSelector" where
  "call c s = s\<lparr>calls := calls s @ [c]\<rparr>"

subsection \<open>Methods of \<open>RectSelector\<close>\<close>

text \<open>
  Modelled from the spec: \<open>Selector.hide\<close> and \<open>Selector.show\<close> (the \<open>super\<close> calls)
  are not among the sources; they hide and show the selector's own node. The fields
  \<open>capturingState\<close>, \<open>isTwoPoints\<close>, \<open>selectionBox\<close> and the others of
  \<open>RectSelector\<close> are private to it, so the base class does not write them.
\<close>

definition hide :: "RectSelector \<Rightarrow> RectSelector" where
  "hide s =
     (let s1 = s\<lparr>nodeVisible := False\<rparr>
      in s1\<lparr>crossA := hideCross (crossA s1),
             crossB := hideCross (crossB s1),
             mask := hideMask (mask s1)\<rparr>)"

definition show' :: "RectSelector \<Rightarrow> RectSelector" where
  "show' s =
     (let s1 = s\<lparr>nodeVisible := True\<rparr>
      in s1\<lparr>crossA := showCross (crossA s1)\<rparr>)"

definition moveSelectionBox ::
  "RectElement \<Rightarrow> 'a Point2D_scheme \<Rightarrow> 'b Point2D_scheme \<Rightarrow> RectElement"
where
  "moveSelectionBox box pa pb =
     (let bx = (if x pa < x pb then x pa else x pb);
          by' = (if y pa < y pb then y pa else y pb);
          w = \<bar>x pa - x pb\<bar>;
          h = \<bar>y pa - y pb\<bar>
      in resizeRect (moveRect box \<lparr>x = bx, y = by'\<rparr>) w h)"

text \<open>
  The region a pointer-up commits: the four constants and the call of
  \<open>BuildRectRegionData\<close> that both branches of \<open>onPointerUp\<close> repeat.
\<close>

definition commitRegion :: "'a Point2D_scheme \<Rightarrow> 'b Point2D_scheme \<Rightarrow> RegionData" where
  "commitRegion a b =
     (let rx = min (x a) (x b);
          ry = min (y a) (y b);
          w = \<bar>x a - x b\<bar>;
          h = \<bar>y a - y b\<bar>
      in BuildRectRegionData rx ry w h)"

text \<open>
  The first two lines of the leave, up and move bodies: \<open>rect[0]\<close> is undefined when
  the parent node has no client rectangle, and reading \<open>left\<close> of it throws.
\<close>

definition localPoint :: "DOMRect list \<Rightarrow> PointerEvent \<Rightarrow> error + Point2D" where
  "localPoint rects e =
     (case rects of
        [] \<Rightarrow> Inl TypeError
      | r # _ \<Rightarrow> Inr \<lparr>x = clientX e - left r, y = clientY e - top' r\<rparr>)"

definition onPointerEnterFrame :: "PointerEvent \<Rightarrow> RectSelector \<Rightarrow> error + RectSelector" where
  "onPointerEnterFrame e s = Inr (s\<lparr>crossA := showCross (crossA s)\<rparr>)"

definition onPointerLeaveFrame :: "PointerEvent \<Rightarrow> RectSelector \<Rightarrow> error + RectSelector" where
  "onPointerLeaveFrame e s =
     (case localPoint (clientRects s) e of
        Inl err \<Rightarrow> Inl err
      | Inr p \<Rightarrow>
          if \<not> capturingState s then
            Inr (s\<lparr>crossA := hideCross (crossA s),
                   crossB := hideCross (crossB s),
                   selectionBox := hideRect (selectionBox s)\<rparr>)
          else if isTwoPoints s \<and> capturingState s then
            (let s1 = s\<lparr>crossB := moveCross (boundRect s) (crossB s) p False (None :: Point2D option)\<rparr>
             in Inr (s1\<lparr>selectionBox := moveSelectionBox (selectionBox s1) (crossA s1) (crossB s1)\<rparr>))
          else Inr s)"

definition onPointerDownFrame :: "PointerEvent \<Rightarrow> RectSelector \<Rightarrow> error + RectSelector" where
  "onPointerDownFrame e s =
     (if \<not> isTwoPoints s then
        (let s1 = s\<lparr>capturingState := True\<rparr>;
             s2 = call (SetPointerCapture (pointerId e)) s1;
             s3 = s2\<lparr>crossB := moveCross (boundRect s2) (crossB s2) (crossA s2) False (None :: Point2D option)\<rparr>;
             s4 = s3\<lparr>selectionBox := moveSelectionBox (selectionBox s3) (crossA s3) (crossB s3)\<rparr>;
             s5 = s4\<lparr>mask := showMask (mask s4),
                     crossB := showCross (crossB s4),
                     selectionBox := showRect (selectionBox s4)\<rparr>
         in Inr (if onSelectionBegin (callbacks s5) then call OnSelectionBegin s5 else s5))
      else Inr s)"

definition onPointerUpFrame :: "PointerEvent \<Rightarrow> RectSelector \<Rightarrow> error + RectSelector" where
  "onPointerUpFrame e s =
     (case localPoint (clientRects s) e of
        Inl err \<Rightarrow> Inl err
      | Inr p \<Rightarrow>
          if \<not> isTwoPoints s then
            (let s1 = s\<lparr>capturingState := False\<rparr>;
                 s2 = call (ReleasePointerCapture (pointerId e)) s1;
                 s3 = s2\<lparr>crossB := hideCross (crossB s2), mask := hideMask (mask s2)\<rparr>
             in Inr (if onSelectionEnd (callbacks s3)
                     then call (OnSelectionEnd (commitRegion (crossA s3) (crossB s3))) s3
                     else s3))
          else if capturingState s then
            (let s1 = s\<lparr>capturingState := False\<rparr>;
                 s2 = s1\<lparr>crossB := hideCross (crossB s1), mask := hideMask (mask s1)\<rparr>;
                 s3 = (if onSelectionEnd (callbacks s2)
                       then call (OnSelectionEnd (commitRegion (crossA s2) (crossB s2))) s2
                       else s2);
                 s4 = s3\<lparr>crossA := moveCross (boundRect s3) (crossA s3) p False (None :: Point2D option)\<rparr>
             in Inr (s4\<lparr>crossB := moveCross (boundRect s4) (crossB s4) p False (None :: Point2D option)\<rparr>))
          else
            (let s1 = s\<lparr>capturingState := True\<rparr>;
                 s2 = s1\<lparr>crossB := moveCross (boundRect s1) (crossB s1) p False (None :: Point2D option)\<rparr>;
                 s3 = s2\<lparr>selectionBox := moveSelectionBox (selectionBox s2) (crossA s2) (crossB s2)\<rparr>;
                 s4 = s3\<lparr>crossA := showCross (crossA s3),
                         crossB := showCross (crossB s3),
                         selectionBox := showRect (selectionBox s3),
                         mask := showMask (mask s3)\<rparr>
             in Inr (if onSelectionBegin (callbacks s4) then call OnSelectionBegin s4 else s4)))"

definition onPointerMoveFrame :: "PointerEvent \<Rightarrow> RectSelector \<Rightarrow> error + RectSelector" where
  "onPointerMoveFrame e s =
     (case localPoint (clientRects s) e of
        Inl err \<Rightarrow> Inl err
      | Inr p \<Rightarrow>
          (let s1 = s\<lparr>crossA := showCross (crossA s)\<rparr>
           in if \<not> isTwoPoints s1 then
                if capturingState s1 then
                  (let s2 = s1\<lparr>crossB := moveCross (boundRect s1) (crossB s1) p
                                            (selectionModificator s1 = SQUARE) (Some (crossA s1))\<rparr>
                   in Inr (s2\<lparr>selectionBox := moveSelectionBox (selectionBox s2) (crossA s2) (crossB s2)\<rparr>))
                else Inr (s1\<lparr>crossA := moveCross (boundRect s1) (crossA s1) p False (None :: Point2D option)\<rparr>)
              else
                if capturingState s1 then
                  (let s2 = s1\<lparr>crossB := moveCross (boundRect s1) (crossB s1) p
                                            (selectionModificator s1 = SQUARE) (Some (crossA s1))\<rparr>
                   in Inr (s2\<lparr>selectionBox := moveSelectionBox (selectionBox s2) (crossA s2) (crossB s2)\<rparr>))
                else
                  (let s2 = s1\<lparr>crossA := moveCross (boundRect s1) (crossA s1) p False (None :: Point2D option)\<rparr>
                   in Inr (s2\<lparr>crossB := moveCross (boundRect s2) (crossB s2) p False (None :: Point2D option)\<rparr>))))"

definition onKeyDown :: "KeyboardEvent \<Rightarrow> RectSelector \<Rightarrow> RectSelector" where
  "onKeyDown e s =
     (let s1 = (if shiftKey e then s\<lparr>selectionModificator := SQUARE\<rparr> else s)
      in if ctrlKey e \<and> \<not> capturingState s1 then s1\<lparr>isTwoPoints := True\<rparr> else s1)"

definition onKeyUp :: "KeyboardEvent \<Rightarrow> RectSelector \<Rightarrow> RectSelector" where
  "onKeyUp e s =
     (let s1 = (if \<not> shiftKey e then s\<lparr>selectionModificator := RECT\<rparr> else s)
      in if \<not> ctrlKey e \<and> isTwoPoints s1 then
           (let s2 = s1\<lparr>isTwoPoints := False\<rparr>;
                s3 = s2\<lparr>capturingState := False\<rparr>;
                s4 = s3\<lparr>crossA := moveCross (boundRect s3) (crossA s3) (crossB s3) False (None :: Point2D option)\<rparr>
            in s4\<lparr>crossB := hideCross (crossB s4),
                   selectionBox := hideRect (selectionBox s4),
                   mask := hideMask (mask s4)\<rparr>)
         else s1)"

subsection \<open>Listeners, animation frames and event sequences\<close>

definition requestAnimationFrame :: "FrameRequest \<Rightarrow> RectSelector \<Rightarrow> RectSelector" where
  "requestAnimationFrame r s = s\<lparr>frameRequests := frameRequests s @ [r]\<rparr>"

fun frameBody :: "FrameRequest \<Rightarrow> RectSelector \<Rightarrow> error + RectSelector" where
  "frameBody (EnterFrame e) s = onPointerEnterFrame e s"
| "frameBody (LeaveFrame e) s = onPointerLeaveFrame e s"
| "frameBody (DownFrame e) s = onPointerDownFrame e s"
| "frameBody (UpFrame e) s = onPointerUpFrame e s"
| "frameBody (MoveFrame e) s = onPointerMoveFrame e s"

text \<open>
  A body that throws leaves the selector as it found it (the throwing statement comes
  before every assignment); the error is reported and the next body runs.
\<close>

definition runFrameRequest :: "RectSelector \<Rightarrow> FrameRequest \<Rightarrow> RectSelector" where
  "runFrameRequest s r =
     (case frameBody r s of
        Inl err \<Rightarrow> s\<lparr>uncaught := uncaught s @ [err]\<rparr>
      | Inr s' \<Rightarrow> s')"

definition animationFrame :: "RectSelector \<Rightarrow> RectSelector" where
  "animationFrame s = foldl runFrameRequest (s\<lparr>frameRequests := []\<rparr>) (frameRequests s)"

datatype event =
  PointerEnter PointerEvent
| PointerLeave PointerEvent
| PointerDown PointerEvent
| PointerUp PointerEvent
| PointerMove PointerEvent
| KeyDown KeyboardEvent
| KeyUp KeyboardEvent
| AnimationFrame

text \<open>
  The listener table of \<open>buildUIElements\<close>: each pointer listener registers its body
  for the next animation frame, the two key listeners run at once. The selector is
  taken to be enabled, so that the subscription of the base class hands every event to
  its listener. \<open>e.preventDefault()\<close> in the pointer-move listener writes no field of
  the selector and is left out; \<open>setPointerCapture\<close> and \<open>releasePointerCapture\<close>
  are recorded as calls and taken to return normally.
\<close>

fun dispatch :: "RectSelector \<Rightarrow> event \<Rightarrow> RectSelector" where
  "dispatch s (PointerEnter e) = requestAnimationFrame (EnterFrame e) s"
| "dispatch s (PointerLeave e) = requestAnimationFrame (LeaveFrame e) s"
| "dispatch s (PointerDown e) = requestAnimationFrame (DownFrame e) s"
| "dispatch s (PointerUp e) = requestAnimationFrame (UpFrame e) s"
| "dispatch s (PointerMove e) = requestAnimationFrame (MoveFrame e) s"
| "dispatch s (KeyDown e) = onKeyDown e s"
| "dispatch s (KeyUp e) = onKeyUp e s"
| "dispatch s AnimationFrame = animationFrame s"

text \<open>
  The selector after a sequence of events, once a last animation frame has run every
  body still registered.
\<close>

definition deliver :: "event list \<Rightarrow> RectSelector \<Rightarrow> RectSelector" where
  "deliver evs s = animationFrame (foldl dispatch s evs)"

text \<open>
  The bodies a list of events registers, in order; key events and animation frames
  register none.
\<close>

fun requestOf :: "event \<Rightarrow> FrameRequest list" where
  "requestOf (PointerEnter e) = [EnterFrame e]"
| "requestOf (PointerLeave e) = [LeaveFrame e]"
| "requestOf (PointerDown e) = [DownFrame e]"
| "requestOf (PointerUp e) = [UpFrame e]"
| "requestOf (PointerMove e) = [MoveFrame e]"
| "requestOf (KeyDown e) = []"
| "requestOf (KeyUp e) = []"
| "requestOf AnimationFrame = []"

fun isKeyEvent :: "event \<Rightarrow> bool" where
  "isKeyEvent (KeyDown e) = True"
| "isKeyEvent (KeyUp e) = True"
| "isKeyEvent _ = False"

definition requests :: "event list \<Rightarrow> FrameRequest list" where
  "requests evs = concat (map requestOf evs)"

text \<open>The calls that acquire or release pointer capture.\<close>

definition isCaptureCall :: "HostCall \<Rightarrow> bool" where
  "isCaptureCall c =
     (case c of SetPointerCapture n \<Rightarrow> True | ReleasePointerCapture n \<Rightarrow> True | _ \<Rightarrow> False)"

subsection \<open>Concrete selectors and events\<close>

text \<open>
  A selector over a 100 by 100 surface at the origin of the client area, in one-point
  mode, not capturing, both hooks supplied, with crossA shown at the origin: the
  selector after \<open>show()\<close> and a pointer-move to (0,0).
\<close>

definition idleSelector :: RectSelector where
  "idleSelector =
     \<lparr>crossA = \<lparr>x = 0, y = 0, crossVisible = True\<rparr>,
      crossB = \<lparr>x = 0, y = 0, crossVisible = False\<rparr>,
      selectionBox = \<lparr>x = 0, y = 0, rect = \<lparr>width = 0, height = 0\<rparr>, rectVisible = False\<rparr>,
      mask = \<lparr>maskVisible = False\<rparr>,
      capturingState = False,
      isTwoPoints = False,
      selectionModificator = RECT,
      boundRect = \<lparr>width = 100, height = 100\<rparr>,
      callbacks = \<lparr>onSelectionBegin = True, onSelectionEnd = True\<rparr>,
      nodeVisible = True,
      clientRects = [\<lparr>width = 100, height = 100, left = 0, top' = 0\<rparr>],
      frameRequests = [],
      calls = [],
      uncaught = []\<rparr>"

definition pointerAt :: "real \<Rightarrow> real \<Rightarrow> PointerEvent" where
  "pointerAt px py = \<lparr>clientX = px, clientY = py, pointerId = 1\<rparr>"

definition ctrlKeyEvent :: "bool \<Rightarrow> KeyboardEvent" where
  "ctrlKeyEvent held = \<lparr>shiftKey = False, ctrlKey = held\<rparr>"

text \<open>
  The idle selector on a parent node that has no client rectangle (a node that is not
  rendered): \<open>getClientRects()\<close> is empty.
\<close>

definition detachedSelector :: RectSelector where
  "detachedSelector = idleSelector\<lparr>clientRects := []\<rparr>"

text \<open>The idle selector after the pointer has moved to (10,10).\<close>

definition hoveringSelector :: RectSelector where
  "hoveringSelector = deliver [PointerMove (pointerAt 10 10)] idleSelector"

text \<open>
  A selector in the middle of a one-point drag from (10,10) to (50,40), and a selector
  in two-point mode whose first corner is placed at (5,5), the pointer being at
  (25,15).
\<close>

definition draggingSelector :: RectSelector where
  "draggingSelector =
     deliver [PointerMove (pointerAt 10 10), PointerDown (pointerAt 10 10),
              PointerMove (pointerAt 50 40)] idleSelector"

definition armedSelector :: RectSelector where
  "armedSelector =
     deliver [KeyDown (ctrlKeyEvent True), PointerMove (pointerAt 5 5),
              PointerDown (pointerAt 5 5), PointerUp (pointerAt 5 5),
              PointerMove (pointerAt 25 15)] idleSelector"

section \<open>The CSV export\<close>

datatype AssetState = NotVisited | Visited | Tagged

record IAsset =
  name :: string
  size' :: Rect
  state :: AssetState

record IRegion =
  tags :: "string list"
  boundingBox :: IBoundingBox

record IAssetMetadata =
  asset :: IAsset
  regions :: "IRegion list"

record DataItem =
  image' :: string
  xmin :: real
  ymin :: real
  xmax :: real
  ymax :: real
  label :: string

record ICsvExportProviderOptions =
  includeImages :: bool

text \<open>
  What the loop does besides collecting records: the calls on the asset service, the
  side bar, the toast and the storage provider, in order.
\<close>

datatype ExportEffect =
  Save IAssetMetadata
| OnAssetClicked IAsset
| ToastError string
| WriteBinary string

text \<open>
  The check for out of bounds boxes: the inner loop runs once for every tag of the
  region and breaks at the first tag for which the box exceeds the measured size; the
  outer loop breaks once \<open>skipAsset\<close> is set.
\<close>

fun skipAssetTags :: "IRegion \<Rightarrow> string list \<Rightarrow> Rect \<Rightarrow> bool" where
  "skipAssetTags reg [] assetProps = False"
| "skipAssetTags reg (tag # rest) assetProps =
     (let maxx = left (boundingBox reg) + width (boundingBox reg);
          maxy = top' (boundingBox reg) + height (boundingBox reg);
          W = width assetProps;
          H = height assetProps
      in if maxx > W \<or> maxy > H then True else skipAssetTags reg rest assetProps)"

fun skipAsset :: "IRegion list \<Rightarrow> Rect \<Rightarrow> bool" where
  "skipAsset [] assetProps = False"
| "skipAsset (reg # rest) assetProps =
     (if skipAssetTags reg (tags reg) assetProps then True else skipAsset rest assetProps)"

text \<open>
  \<open>for (const ar of assetMetadata.regions) { assetMetadata.regions.pop() }\<close>: the
  array iterator compares its index with the current length of the array before every
  step, and every step removes the last element.
\<close>

function popRegions :: "nat \<Rightarrow> 'a list \<Rightarrow> 'a list" where
  "popRegions i rs = (if i < length rs then popRegions (Suc i) (butlast rs) else rs)"
  by pat_completeness auto
termination
  by (relation "measure (\<lambda>(i, rs). length rs - i)") auto

declare popRegions.simps [simp del]

definition pushRecords :: "string \<Rightarrow> DataItem list \<Rightarrow> IRegion list \<Rightarrow> DataItem list" where
  "pushRecords nm dataItems rs =
     foldl (\<lambda>items region.
              foldl (\<lambda>items' tag.
                       items' @ [\<lparr>image' = nm,
                                  xmin = left (boundingBox region),
                                  ymin = top' (boundingBox region),
                                  xmax = left (boundingBox region) + width (boundingBox region),
                                  ymax = top' (boundingBox region) + height (boundingBox region),
                                  label = tag\<rparr>])
                    items (tags region))
           dataItems rs"

record ExportState =
  dataItems :: "DataItem list"
  assets :: "IAssetMetadata list"
  effects :: "ExportEffect list"

text \<open>
  The two rejections share their statements: the regions are popped, the asset is
  marked not visited, saved and selected in the side bar, and the error is shown.
\<close>

definition rejectAsset :: "string \<Rightarrow> ExportState \<Rightarrow> IAssetMetadata \<Rightarrow> ExportState" where
  "rejectAsset err st assetMetadata =
     (let m1 = assetMetadata\<lparr>regions := popRegions 0 (regions assetMetadata)\<rparr>;
          m2 = m1\<lparr>asset := (asset m1)\<lparr>state := NotVisited\<rparr>\<rparr>
      in st\<lparr>assets := assets st @ [m2],
            effects := effects st @ [Save m2, OnAssetClicked (asset m2), ToastError err]\<rparr>)"

text \<open>
  One round of the loop over the assets. \<open>HtmlFileReader.readAssetAttributes\<close> is a
  parameter: it measures the asset. The storage provider and the CSV encoder are
  outside the model; the records pushed are the export's result.
\<close>

definition exportAsset ::
  "ICsvExportProviderOptions \<Rightarrow> (IAsset \<Rightarrow> Rect) \<Rightarrow> ExportState \<Rightarrow> IAssetMetadata \<Rightarrow> ExportState"
where
  "exportAsset options readAssetAttributes st assetMetadata =
     (let assetProps = readAssetAttributes (asset assetMetadata)
      in if skipAsset (regions assetMetadata) assetProps then
           rejectAsset (''Out Of bounds'' @ name (asset assetMetadata)) st assetMetadata
         else if width (size' (asset assetMetadata)) \<noteq> width assetProps
                 \<or> height (size' (asset assetMetadata)) \<noteq> height assetProps then
           rejectAsset (''Resized image '' @ name (asset assetMetadata)) st assetMetadata
         else
           (let st1 = (if includeImages options
                       then st\<lparr>effects := effects st
                              @ [WriteBinary (''vott-csv-export/'' @ name (asset assetMetadata))]\<rparr>
                       else st)
            in st1\<lparr>dataItems := pushRecords (name (asset assetMetadata)) (dataItems st1)
                                    (regions assetMetadata),
                   assets := assets st1 @ [assetMetadata]\<rparr>))"

definition export' ::
  "ICsvExportProviderOptions \<Rightarrow> (IAsset \<Rightarrow> Rect) \<Rightarrow> IAssetMetadata list \<Rightarrow> ExportState"
where
  "export' options readAssetAttributes results =
     foldl (exportAsset options readAssetAttributes)
       \<lparr>dataItems = [], assets = [], effects = []\<rparr> results"

subsection \<open>The export in the words of its contract\<close>

text \<open>
  The records of one region: one for each of its tags. The asset is rejected when a
  region that has a tag exceeds the measured size, or when the recorded size is not the
  measured one; a rejected asset contributes no record and comes back popped and not
  visited. These definitions are compared with the loops above.
\<close>

definition regionRecords :: "string \<Rightarrow> IRegion \<Rightarrow> DataItem list" where
  "regionRecords nm region =
     map (\<lambda>tag. \<lparr>image' = nm,
                  xmin = left (boundingBox region),
                  ymin = top' (boundingBox region),
                  xmax = left (boundingBox region) + width (boundingBox region),
                  ymax = top' (boundingBox region) + height (boundingBox region),
                  label = tag\<rparr>) (tags region)"

definition rejected :: "(IAsset \<Rightarrow> Rect) \<Rightarrow> IAssetMetadata \<Rightarrow> bool" where
  "rejected readAssetAttributes m =
     ((\<exists>reg\<in>set (regions m). tags reg \<noteq> []
          \<and> (left (boundingBox reg) + width (boundingBox reg) > width (readAssetAttributes (asset m))
             \<or> top' (boundingBox reg) + height (boundingBox reg) > height (readAssetAttributes (asset m))))
      \<or> width (size' (asset m)) \<noteq> width (readAssetAttributes (asset m))
      \<or> height (size' (asset m)) \<noteq> height (readAssetAttributes (asset m)))"

definition exportedAsset :: "(IAsset \<Rightarrow> Rect) \<Rightarrow> IAssetMetadata \<Rightarrow> IAssetMetadata" where
  "exportedAsset readAssetAttributes m =
     (if rejected readAssetAttributes m
      then m\<lparr>regions := popRegions 0 (regions m), asset := (asset m)\<lparr>state := NotVisited\<rparr>\<rparr>
      else m)"

definition assetRecords :: "(IAsset \<Rightarrow> Rect) \<Rightarrow> IAssetMetadata \<Rightarrow> DataItem list" where
  "assetRecords readAssetAttributes m =
     (if rejected readAssetAttributes m then []
      else concat (map (regionRecords (name (asset m))) (regions m)))"

text \<open>
  An asset of 100 by 100 pixels with two regions: one without tags that reaches beyond
  the right edge, one tagged region inside the image.
\<close>

definition sampleAsset :: IAssetMetadata where
  "sampleAsset =
     \<lparr>asset = \<lparr>name = ''a.jpg'', size' = \<lparr>width = 100, height = 100\<rparr>, state = Tagged\<rparr>,
      regions =
        [\<lparr>tags = [], boundingBox = \<lparr>width = 50, height = 50, left = 80, top' = 10\<rparr>\<rparr>,
         \<lparr>tags = [''cat''], boundingBox = \<lparr>width = 10, height = 10, left = 0, top' = 0\<rparr>\<rparr>]\<rparr>"

definition sampleOptions :: ICsvExportProviderOptions where
  "sampleOptions = \<lparr>includeImages = False\<rparr>"

definition measured100 :: "IAsset \<Rightarrow> Rect" where
  "measured100 a = \<lparr>width = 100, height = 100\<rparr>"

section \<open>Properties of the rect selector\<close>

lemma BuildRectRegionData_nonneg:
  "0 \<le> w \<Longrightarrow> 0 \<le> h \<Longrightarrow> BuildRectRegionData rx ry w h = RectRegion rx ry w h"
  by (simp add: BuildRectRegionData_def min_def)

lemma commitRegion_eq:
  "commitRegion a b = RectRegion (min (x a) (x b)) (min (y a) (y b)) \<bar>x a - x b\<bar> \<bar>y a - y b\<bar>"
  by (simp add: commitRegion_def Let_def BuildRectRegionData_nonneg)

subsection \<open>Animation frames\<close>

lemma frameBody_frameRequests:
  "frameBody r (s\<lparr>frameRequests := q\<rparr>) =
     map_sum id (\<lambda>s'. s'\<lparr>frameRequests := q\<rparr>) (frameBody r s)"
  by (cases r)
     (simp_all add: onPointerEnterFrame_def onPointerLeaveFrame_def onPointerDownFrame_def
        onPointerUpFrame_def onPointerMoveFrame_def Let_def call_def split: sum.splits)

lemma runFrameRequest_frameRequests:
  "runFrameRequest (s\<lparr>frameRequests := q\<rparr>) r = (runFrameRequest s r)\<lparr>frameRequests := q\<rparr>"
  by (cases "frameBody r s") (simp_all add: runFrameRequest_def frameBody_frameRequests)

lemma foldl_runFrameRequest_frameRequests:
  "foldl runFrameRequest (s\<lparr>frameRequests := q\<rparr>) rs =
     (foldl runFrameRequest s rs)\<lparr>frameRequests := q\<rparr>"
  by (induction rs arbitrary: s) (simp_all add: runFrameRequest_frameRequests)

lemma animationFrame_eq:
  "animationFrame s = (foldl runFrameRequest s (frameRequests s))\<lparr>frameRequests := []\<rparr>"
  by (simp add: animationFrame_def foldl_runFrameRequest_frameRequests)

lemma requests_Cons: "requests (ev # evs) = requestOf ev @ requests evs"
  by (simp add: requests_def)

lemma requests_Nil: "requests [] = []"
  by (simp add: requests_def)

lemma dispatch_pointer:
  "\<not> isKeyEvent ev \<Longrightarrow> ev \<noteq> AnimationFrame \<Longrightarrow>
     dispatch s ev = s\<lparr>frameRequests := frameRequests s @ requestOf ev\<rparr>"
  by (cases ev) (simp_all add: requestAnimationFrame_def)

text \<open>
  Animation frames may fall anywhere between pointer events: the bodies run in the
  order in which the events arrived, each on the state the one before it left.
\<close>

lemma deliver_pointer_events:
  "\<forall>ev\<in>set evs. \<not> isKeyEvent ev \<Longrightarrow>
     deliver evs s = (foldl runFrameRequest s (frameRequests s @ requests evs))\<lparr>frameRequests := []\<rparr>"
proof (induction evs arbitrary: s)
  case Nil
  then show ?case by (simp add: deliver_def animationFrame_eq requests_Nil)
next
  case (Cons ev evs)
  have step: "deliver (ev # evs) s = deliver evs (dispatch s ev)"
    by (simp add: deliver_def)
  have ih: "deliver evs (dispatch s ev) =
      (foldl runFrameRequest (dispatch s ev) (frameRequests (dispatch s ev) @ requests evs))\<lparr>frameRequests := []\<rparr>"
    using Cons by simp
  show ?case
  proof (cases "ev = AnimationFrame")
    case True
    have "dispatch s ev = (foldl runFrameRequest s (frameRequests s))\<lparr>frameRequests := []\<rparr>"
      using True by (simp add: animationFrame_eq)
    then show ?thesis
      unfolding step ih
      by (simp add: True foldl_runFrameRequest_frameRequests requests_Cons)
  next
    case False
    with Cons.prems have "dispatch s ev = s\<lparr>frameRequests := frameRequests s @ requestOf ev\<rparr>"
      by (simp add: dispatch_pointer)
    then show ?thesis
      unfolding step ih
      by (simp add: foldl_runFrameRequest_frameRequests requests_Cons)
  qed
qed

lemma requests_filter:
  "requests (filter (\<lambda>ev. ev \<noteq> AnimationFrame) evs) = requests evs"
  by (induction evs) (simp_all add: requests_Cons requests_Nil)

lemma deliver_frames:
  assumes "filter (\<lambda>ev. ev \<noteq> AnimationFrame) evs = pes"
    and "\<forall>ev\<in>set pes. \<not> isKeyEvent ev"
    and "frameRequests s = []"
  shows "deliver evs s = (foldl runFrameRequest s (requests pes))\<lparr>frameRequests := []\<rparr>"
proof -
  have "\<forall>ev\<in>set evs. \<not> isKeyEvent ev"
    using assms(1,2) by auto
  then show ?thesis
    using assms(1,3) requests_filter [of evs] by (simp add: deliver_pointer_events)
qed

lemma deliver_key:
  "deliver (KeyDown k # evs) s = deliver evs (onKeyDown k s)"
  "deliver (KeyUp k # evs) s = deliver evs (onKeyUp k s)"
  by (simp_all add: deliver_def)

subsection \<open>What the frame bodies keep\<close>

lemmas body_defs =
  onPointerEnterFrame_def onPointerLeaveFrame_def onPointerDownFrame_def
  onPointerUpFrame_def onPointerMoveFrame_def runFrameRequest_def call_def Let_def

lemma runFrameRequest_clientRects [simp]:
  "clientRects (runFrameRequest s r) = clientRects s"
  by (cases r) (simp_all add: body_defs split: sum.splits)

lemma runFrameRequest_isTwoPoints [simp]:
  "isTwoPoints (runFrameRequest s r) = isTwoPoints s"
  by (cases r) (simp_all add: body_defs split: sum.splits)

lemma runFrameRequest_callbacks [simp]:
  "callbacks (runFrameRequest s r) = callbacks s"
  by (cases r) (simp_all add: body_defs split: sum.splits)

lemma runFrameRequest_boundRect [simp]:
  "boundRect (runFrameRequest s r) = boundRect s"
  by (cases r) (simp_all add: body_defs split: sum.splits)

lemma runFrameRequest_selectionModificator [simp]:
  "selectionModificator (runFrameRequest s r) = selectionModificator s"
  by (cases r) (simp_all add: body_defs split: sum.splits)

lemma move_frame_calls [simp]:
  "calls (runFrameRequest s (MoveFrame e)) = calls s"
  by (simp add: body_defs split: sum.splits)

lemma boundToRect_inside:
  "0 \<le> x p \<Longrightarrow> x p \<le> width r \<Longrightarrow> 0 \<le> y p \<Longrightarrow> y p \<le> height r \<Longrightarrow>
     boundToRect r p = \<lparr>x = x p, y = y p\<rparr>"
  by (simp add: boundToRect_def)


text \<open>
  Claim C2. The region committed from the corners \<open>p1\<close>, \<open>p2\<close> is the region
  committed from \<open>p2\<close>, \<open>p1\<close>: its corner is the componentwise minimum, its width
  and height are the componentwise absolute differences and are not negative, and two
  equal corners give a region of zero width and height. The selection box drawn from
  two corners is the same under the swap as well.
\<close>

theorem commit_region_corner_swap:
  "commitRegion p1 p2 = commitRegion p2 p1
   \<and> commitRegion p1 p2 =
       RectRegion (min (x p1) (x p2)) (min (y p1) (y p2)) \<bar>x p1 - x p2\<bar> \<bar>y p1 - y p2\<bar>
   \<and> 0 \<le> \<bar>x p1 - x p2\<bar> \<and> 0 \<le> \<bar>y p1 - y p2\<bar>
   \<and> commitRegion p1 p1 = RectRegion (x p1) (y p1) 0 0
   \<and> moveSelectionBox box p1 p2 = moveSelectionBox box p2 p1"
  by (auto simp add: commitRegion_eq min.commute abs_minus_commute
        moveSelectionBox_def moveRect_def resizeRect_def Let_def)

subsection \<open>The frame bodies, mode by mode\<close>

lemmas elem_defs = moveCross_def showCross_def hideCross_def showRect_def hideRect_def
  showMask_def hideMask_def

lemma down_frame_one_point:
  assumes "\<not> isTwoPoints s"
  shows "runFrameRequest s (DownFrame e) =
    s\<lparr>capturingState := True,
      crossB := \<lparr>x = x (boundToRect (boundRect s) (crossA s)),
                 y = y (boundToRect (boundRect s) (crossA s)), crossVisible = True\<rparr>,
      selectionBox := showRect (moveSelectionBox (selectionBox s) (crossA s)
                        (boundToRect (boundRect s) (crossA s))),
      mask := \<lparr>maskVisible = True\<rparr>,
      calls := calls s @ SetPointerCapture (pointerId e) #
                 (if onSelectionBegin (callbacks s) then [OnSelectionBegin] else [])\<rparr>"
  using assms
  by (simp add: body_defs elem_defs moveSelectionBox_def moveRect_def resizeRect_def)

lemma down_frame_two_points:
  "isTwoPoints s \<Longrightarrow> runFrameRequest s (DownFrame e) = s"
  by (simp add: body_defs)

lemma move_frame_capturing:
  assumes "capturingState s" and "selectionModificator s = RECT"
    and "localPoint (clientRects s) e = Inr p"
  shows "runFrameRequest s (MoveFrame e) =
    s\<lparr>crossA := showCross (crossA s),
      crossB := (crossB s)\<lparr>x := x (boundToRect (boundRect s) p),
                            y := y (boundToRect (boundRect s) p)\<rparr>,
      selectionBox := moveSelectionBox (selectionBox s) (crossA s)
                        (boundToRect (boundRect s) p)\<rparr>"
  using assms
  by (simp add: body_defs elem_defs moveSelectionBox_def moveRect_def resizeRect_def)

lemma move_frame_idle_one_point:
  assumes "\<not> capturingState s" and "\<not> isTwoPoints s"
    and "localPoint (clientRects s) e = Inr p"
  shows "runFrameRequest s (MoveFrame e) =
    s\<lparr>crossA := \<lparr>x = x (boundToRect (boundRect s) p),
                   y = y (boundToRect (boundRect s) p), crossVisible = True\<rparr>\<rparr>"
  using assms
  by (simp add: body_defs elem_defs)

lemma move_frame_idle_two_points:
  assumes "\<not> capturingState s" and "isTwoPoints s"
    and "localPoint (clientRects s) e = Inr p"
  shows "runFrameRequest s (MoveFrame e) =
    s\<lparr>crossA := \<lparr>x = x (boundToRect (boundRect s) p),
                   y = y (boundToRect (boundRect s) p), crossVisible = True\<rparr>,
      crossB := (crossB s)\<lparr>x := x (boundToRect (boundRect s) p),
                            y := y (boundToRect (boundRect s) p)\<rparr>\<rparr>"
  using assms
  by (simp add: body_defs elem_defs)

lemma up_frame_one_point:
  assumes "\<not> isTwoPoints s" and "clientRects s \<noteq> []"
  shows "runFrameRequest s (UpFrame e) =
    s\<lparr>capturingState := False,
      crossB := hideCross (crossB s),
      mask := \<lparr>maskVisible = False\<rparr>,
      calls := calls s @ ReleasePointerCapture (pointerId e) #
                 (if onSelectionEnd (callbacks s)
                  then [OnSelectionEnd (commitRegion (crossA s) (crossB s))] else [])\<rparr>"
  using assms
  by (cases "clientRects s")
     (simp_all add: body_defs elem_defs localPoint_def commitRegion_eq)

lemma up_frame_two_points_capturing:
  assumes "isTwoPoints s" and "capturingState s"
    and "localPoint (clientRects s) e = Inr p"
  shows "runFrameRequest s (UpFrame e) =
    s\<lparr>capturingState := False,
      crossA := (crossA s)\<lparr>x := x (boundToRect (boundRect s) p),
                            y := y (boundToRect (boundRect s) p)\<rparr>,
      crossB := \<lparr>x = x (boundToRect (boundRect s) p),
                 y = y (boundToRect (boundRect s) p), crossVisible = False\<rparr>,
      mask := \<lparr>maskVisible = False\<rparr>,
      calls := calls s @
                 (if onSelectionEnd (callbacks s)
                  then [OnSelectionEnd (commitRegion (crossA s) (crossB s))] else [])\<rparr>"
  using assms
  by (simp add: body_defs elem_defs commitRegion_eq)

lemma up_frame_two_points_idle:
  assumes "isTwoPoints s" and "\<not> capturingState s"
    and "localPoint (clientRects s) e = Inr p"
  shows "runFrameRequest s (UpFrame e) =
    s\<lparr>capturingState := True,
      crossA := showCross (crossA s),
      crossB := \<lparr>x = x (boundToRect (boundRect s) p),
                 y = y (boundToRect (boundRect s) p), crossVisible = True\<rparr>,
      selectionBox := showRect (moveSelectionBox (selectionBox s) (crossA s)
                        (boundToRect (boundRect s) p)),
      mask := \<lparr>maskVisible = True\<rparr>,
      calls := calls s @ (if onSelectionBegin (callbacks s) then [OnSelectionBegin] else [])\<rparr>"
  using assms
  by (simp add: body_defs elem_defs moveSelectionBox_def moveRect_def resizeRect_def)


lemmas eval_defs =
  deliver_def animationFrame_def requestAnimationFrame_def body_defs elem_defs
  localPoint_def boundToRect_def moveSelectionBox_def moveRect_def resizeRect_def
  commitRegion_eq onKeyDown_def onKeyUp_def idleSelector_def pointerAt_def ctrlKeyEvent_def


subsection \<open>Claims about the rect selector\<close>

lemma hoveringSelector_eq:
  "hoveringSelector = idleSelector\<lparr>crossA := \<lparr>x = 10, y = 10, crossVisible = True\<rparr>\<rparr>"
  by (simp add: hoveringSelector_def eval_defs)

text \<open>
  Claim C1, as amended. In one-point mode with the square modifier off and
  \<open>onSelectionEnd\<close> supplied, let crossA stand at (10,10) when the button goes down
  (the pointer-down body takes the first corner from crossA, which follows pointer-move
  events; it does not read the position of the down event), and let (50,40) lie inside
  the bound rectangle. Then pointer-down, pointer-move to (50,40), pointer-up, with
  animation frames anywhere between them, invoke \<open>onSelectionEnd\<close> exactly once, with
  the region x=10, y=10, width=40, height=30; the calls made are the acquire of the
  pointer capture, \<open>onSelectionBegin\<close> when supplied, the release, and that commit.
\<close>

theorem one_point_drag_commit:
  assumes "filter (\<lambda>ev. ev \<noteq> AnimationFrame) evs = [PointerDown d, PointerMove m, PointerUp u]"
    and "frameRequests s = []"
    and "\<not> isTwoPoints s"
    and "selectionModificator s = RECT"
    and "onSelectionEnd (callbacks s)"
    and "x (crossA s) = 10" and "y (crossA s) = 10"
    and "localPoint (clientRects s) m = Inr \<lparr>x = 50, y = 40\<rparr>"
    and "50 \<le> width (boundRect s)" and "40 \<le> height (boundRect s)"
  shows "calls (deliver evs s) =
           calls s @ [SetPointerCapture (pointerId d)]
             @ (if onSelectionBegin (callbacks s) then [OnSelectionBegin] else [])
             @ [ReleasePointerCapture (pointerId u), OnSelectionEnd (RectRegion 10 10 40 30)]"
proof -
  have d: "deliver evs s =
      (foldl runFrameRequest s [DownFrame d, MoveFrame m, UpFrame u])\<lparr>frameRequests := []\<rparr>"
    using deliver_frames [OF assms(1) _ assms(2)] by (simp add: requests_def)
  from assms(8) have ne: "clientRects s \<noteq> []"
    by (auto simp add: localPoint_def)
  have a: "boundToRect (boundRect s) (crossA s) = \<lparr>x = 10, y = 10\<rparr>"
    using assms(6,7,9,10) by (simp add: boundToRect_def)
  have b: "boundToRect (boundRect s) \<lparr>x = 50, y = 40\<rparr> = \<lparr>x = 50, y = 40\<rparr>"
    using assms(9,10) by (simp add: boundToRect_def)
  define s1 where "s1 = runFrameRequest s (DownFrame d)"
  define s2 where "s2 = runFrameRequest s1 (MoveFrame m)"
  have s1: "s1 = s\<lparr>capturingState := True,
      crossB := \<lparr>x = 10, y = 10, crossVisible = True\<rparr>,
      selectionBox := showRect (moveSelectionBox (selectionBox s) (crossA s) \<lparr>x = 10, y = 10\<rparr>),
      mask := \<lparr>maskVisible = True\<rparr>,
      calls := calls s @ SetPointerCapture (pointerId d) #
                 (if onSelectionBegin (callbacks s) then [OnSelectionBegin] else [])\<rparr>"
    unfolding s1_def using assms(3) a by (simp add: down_frame_one_point)
  have s2: "s2 = s1\<lparr>crossA := showCross (crossA s1),
      crossB := (crossB s1)\<lparr>x := 50, y := 40\<rparr>,
      selectionBox := moveSelectionBox (selectionBox s1) (crossA s1) \<lparr>x = 50, y = 40\<rparr>\<rparr>"
    unfolding s2_def
    using move_frame_capturing [of s1 m "\<lparr>x = 50, y = 40\<rparr>"] assms(4,8) b
    by (simp add: s1)
  have s3: "calls (runFrameRequest s2 (UpFrame u)) =
      calls s2 @ [ReleasePointerCapture (pointerId u),
                  OnSelectionEnd (commitRegion (crossA s2) (crossB s2))]"
    using up_frame_one_point [of s2 u] assms(3,5) ne
    by (simp add: s2_def s1_def)
  have e: "calls (deliver evs s) = calls (runFrameRequest s2 (UpFrame u))"
    by (simp add: d s1_def s2_def)
  have c2: "calls s2 = calls s @ SetPointerCapture (pointerId d) #
                 (if onSelectionBegin (callbacks s) then [OnSelectionBegin] else [])"
    by (simp add: s2 s1)
  have p2: "x (crossA s2) = 10" "y (crossA s2) = 10" "x (crossB s2) = 50" "y (crossB s2) = 40"
    using assms(6,7) by (simp_all add: s2 s1 showCross_def)
  show ?thesis
    unfolding e s3 by (simp add: c2 p2 commitRegion_eq)
qed

theorem one_point_drag_commit_witness:
  "x (crossA hoveringSelector) = 10 \<and> y (crossA hoveringSelector) = 10
   \<and> calls (deliver [PointerDown (pointerAt 10 10), AnimationFrame,
                     PointerMove (pointerAt 50 40), PointerUp (pointerAt 50 40)]
              hoveringSelector) =
       [SetPointerCapture 1, OnSelectionBegin, ReleasePointerCapture 1,
        OnSelectionEnd (RectRegion 10 10 40 30)]"
  using one_point_drag_commit
    [of "[PointerDown (pointerAt 10 10), AnimationFrame, PointerMove (pointerAt 50 40),
          PointerUp (pointerAt 50 40)]" "pointerAt 10 10" "pointerAt 50 40" "pointerAt 50 40"
        hoveringSelector]
  by (simp add: hoveringSelector_eq idleSelector_def pointerAt_def localPoint_def)

text \<open>
  The claim as written fails when crossA is elsewhere: on a selector whose crossA
  stands at the origin, pointer-down at (10,10), pointer-move to (50,40) and pointer-up
  commit the region x=0, y=0, width=50, height=40.
\<close>

theorem one_point_drag_stale_cross:
  "calls (deliver [PointerDown (pointerAt 10 10), PointerMove (pointerAt 50 40),
                   PointerUp (pointerAt 50 40)] idleSelector) =
     [SetPointerCapture 1, OnSelectionBegin, ReleasePointerCapture 1,
      OnSelectionEnd (RectRegion 0 0 50 40)]
   \<and> OnSelectionEnd (RectRegion 10 10 40 30) \<notin> set (calls (deliver
        [PointerDown (pointerAt 10 10), PointerMove (pointerAt 50 40),
         PointerUp (pointerAt 50 40)] idleSelector))"
  by (simp add: eval_defs)

text \<open>
  Claim C3, as amended. Ctrl-down while not capturing (shift not held, square modifier
  off) enters two-point mode. Let the pointer then move to (5,5), click, move to
  (25,15) and click again, (25,15) lying inside the bound rectangle and
  \<open>onSelectionEnd\<close> being supplied; animation frames may fall anywhere between the
  pointer events. The commit reads the two crosses, which follow the pointer-move
  events, so the second pointer-up invokes \<open>onSelectionEnd\<close> with the region x=5,
  y=5, width=20, height=10. Right after the commit both crosses stand at (25,15), the
  position of that pointer-up, and two-point mode is still active.
\<close>

theorem two_point_clicks_commit:
  assumes "filter (\<lambda>ev. ev \<noteq> AnimationFrame) evs =
             [PointerMove m1, PointerDown d1, PointerUp u1,
              PointerMove m2, PointerDown d2, PointerUp u2]"
    and "frameRequests s = []"
    and "\<not> capturingState s"
    and "ctrlKey k" and "\<not> shiftKey k"
    and "selectionModificator s = RECT"
    and "onSelectionEnd (callbacks s)"
    and "localPoint (clientRects s) m1 = Inr \<lparr>x = 5, y = 5\<rparr>"
    and "localPoint (clientRects s) m2 = Inr \<lparr>x = 25, y = 15\<rparr>"
    and "localPoint (clientRects s) u2 = Inr \<lparr>x = 25, y = 15\<rparr>"
    and "25 \<le> width (boundRect s)" and "15 \<le> height (boundRect s)"
  shows "calls (deliver (KeyDown k # evs) s) =
           calls s @ (if onSelectionBegin (callbacks s) then [OnSelectionBegin] else [])
             @ [OnSelectionEnd (RectRegion 5 5 20 10)]
         \<and> x (crossA (deliver (KeyDown k # evs) s)) = 25
         \<and> y (crossA (deliver (KeyDown k # evs) s)) = 15
         \<and> x (crossB (deliver (KeyDown k # evs) s)) = 25
         \<and> y (crossB (deliver (KeyDown k # evs) s)) = 15
         \<and> isTwoPoints (deliver (KeyDown k # evs) s)
         \<and> \<not> capturingState (deliver (KeyDown k # evs) s)"
proof -
  define s0 where "s0 = onKeyDown k s"
  have s0: "s0 = s\<lparr>isTwoPoints := True\<rparr>"
    using assms(3,4,5) by (simp add: s0_def onKeyDown_def)
  have fr0: "frameRequests s0 = []"
    using assms(2) by (simp add: s0)
  have d: "deliver (KeyDown k # evs) s =
      (foldl runFrameRequest s0 [MoveFrame m1, DownFrame d1, UpFrame u1,
         MoveFrame m2, DownFrame d2, UpFrame u2])\<lparr>frameRequests := []\<rparr>"
    using deliver_frames [OF assms(1) _ fr0] by (simp add: requests_def deliver_key s0_def)
  from assms(8) obtain p1 where p1: "localPoint (clientRects s) u1 = Inr p1"
    by (cases "clientRects s") (auto simp add: localPoint_def)
  have b5: "boundToRect (boundRect s) \<lparr>x = 5, y = 5\<rparr> = \<lparr>x = 5, y = 5\<rparr>"
    using assms(11,12) by (simp add: boundToRect_def)
  have b25: "boundToRect (boundRect s) \<lparr>x = 25, y = 15\<rparr> = \<lparr>x = 25, y = 15\<rparr>"
    using assms(11,12) by (simp add: boundToRect_def)
  define s1 where "s1 = runFrameRequest s0 (MoveFrame m1)"
  define s3 where "s3 = runFrameRequest s1 (UpFrame u1)"
  define s4 where "s4 = runFrameRequest s3 (MoveFrame m2)"
  define s6 where "s6 = runFrameRequest s4 (UpFrame u2)"
  have s1: "s1 = s0\<lparr>crossA := \<lparr>x = 5, y = 5, crossVisible = True\<rparr>,
                    crossB := (crossB s0)\<lparr>x := 5, y := 5\<rparr>\<rparr>"
    unfolding s1_def
    using move_frame_idle_two_points [of s0 m1 "\<lparr>x = 5, y = 5\<rparr>"] assms(3,8) b5
    by (simp add: s0)
  have f1: "isTwoPoints s1" "\<not> capturingState s1" "clientRects s1 = clientRects s"
    "boundRect s1 = boundRect s" "callbacks s1 = callbacks s" "calls s1 = calls s"
    "selectionModificator s1 = RECT" "x (crossA s1) = 5" "y (crossA s1) = 5"
    using assms(3,6) by (simp_all add: s1 s0)
  have s3: "s3 = s1\<lparr>capturingState := True,
      crossA := showCross (crossA s1),
      crossB := \<lparr>x = x (boundToRect (boundRect s1) p1),
                 y = y (boundToRect (boundRect s1) p1), crossVisible = True\<rparr>,
      selectionBox := showRect (moveSelectionBox (selectionBox s1) (crossA s1)
                        (boundToRect (boundRect s1) p1)),
      mask := \<lparr>maskVisible = True\<rparr>,
      calls := calls s1 @ (if onSelectionBegin (callbacks s1) then [OnSelectionBegin] else [])\<rparr>"
    unfolding s3_def
    using up_frame_two_points_idle [of s1 u1 p1] f1 p1 by simp
  have f3: "isTwoPoints s3" "capturingState s3" "clientRects s3 = clientRects s"
    "boundRect s3 = boundRect s" "callbacks s3 = callbacks s"
    "calls s3 = calls s @ (if onSelectionBegin (callbacks s) then [OnSelectionBegin] else [])"
    "selectionModificator s3 = RECT" "x (crossA s3) = 5" "y (crossA s3) = 5"
    using f1 by (simp_all add: s3 showCross_def)
  have s4: "s4 = s3\<lparr>crossA := showCross (crossA s3),
      crossB := (crossB s3)\<lparr>x := 25, y := 15\<rparr>,
      selectionBox := moveSelectionBox (selectionBox s3) (crossA s3) \<lparr>x = 25, y = 15\<rparr>\<rparr>"
    unfolding s4_def
    using move_frame_capturing [of s3 m2 "\<lparr>x = 25, y = 15\<rparr>"] f3 assms(9) b25
    by simp
  have f4: "isTwoPoints s4" "capturingState s4" "clientRects s4 = clientRects s"
    "boundRect s4 = boundRect s" "callbacks s4 = callbacks s"
    "calls s4 = calls s @ (if onSelectionBegin (callbacks s) then [OnSelectionBegin] else [])"
    "x (crossA s4) = 5" "y (crossA s4) = 5" "x (crossB s4) = 25" "y (crossB s4) = 15"
    using f3 by (simp_all add: s4 showCross_def)
  have s6: "s6 = s4\<lparr>capturingState := False,
      crossA := (crossA s4)\<lparr>x := 25, y := 15\<rparr>,
      crossB := \<lparr>x = 25, y = 15, crossVisible = False\<rparr>,
      mask := \<lparr>maskVisible = False\<rparr>,
      calls := calls s4 @ [OnSelectionEnd (commitRegion (crossA s4) (crossB s4))]\<rparr>"
    unfolding s6_def
    using up_frame_two_points_capturing [of s4 u2 "\<lparr>x = 25, y = 15\<rparr>"] f4 assms(7,10) b25
    by simp
  have e: "deliver (KeyDown k # evs) s = s6\<lparr>frameRequests := []\<rparr>"
    using f1(1) f3(1) by (simp add: d s6_def s4_def s3_def s1_def down_frame_two_points)
  show ?thesis
    unfolding e using f4 by (simp add: s6 commitRegion_eq)
qed

theorem two_point_clicks_commit_witness:
  "calls (deliver [KeyDown (ctrlKeyEvent True), PointerMove (pointerAt 5 5),
                   PointerDown (pointerAt 5 5), PointerUp (pointerAt 5 5), AnimationFrame,
                   PointerMove (pointerAt 25 15), PointerDown (pointerAt 25 15),
                   PointerUp (pointerAt 25 15)] idleSelector) =
     [OnSelectionBegin, OnSelectionEnd (RectRegion 5 5 20 10)]"
  using two_point_clicks_commit
    [of "[PointerMove (pointerAt 5 5),
                   PointerDown (pointerAt 5 5), PointerUp (pointerAt 5 5), AnimationFrame,
                   PointerMove (pointerAt 25 15), PointerDown (pointerAt 25 15),
                   PointerUp (pointerAt 25 15)]"
        "pointerAt 5 5" "pointerAt 5 5" "pointerAt 5 5" "pointerAt 25 15" "pointerAt 25 15"
        "pointerAt 25 15" idleSelector "ctrlKeyEvent True"]
  by (simp add: idleSelector_def pointerAt_def localPoint_def ctrlKeyEvent_def)

text \<open>
  The claim as written fails without the second pointer-move: the pointer-up that
  commits does not move crossB to its own position before the region is computed. With
  the pointer at (5,5) for the first click and the second click at (25,15), the region
  committed is x=5, y=5, width=0, height=0.
\<close>

theorem two_point_clicks_without_move:
  "calls (deliver [KeyDown (ctrlKeyEvent True), PointerMove (pointerAt 5 5),
                   PointerDown (pointerAt 5 5), PointerUp (pointerAt 5 5),
                   PointerDown (pointerAt 25 15), PointerUp (pointerAt 25 15)] idleSelector) =
     [OnSelectionBegin, OnSelectionEnd (RectRegion 5 5 0 0)]"
  by (simp add: eval_defs)

lemma requests_append: "requests (xs @ ys) = requests xs @ requests ys"
  by (simp add: requests_def)

lemma requests_moves: "requests (map PointerMove ms) = map MoveFrame ms"
  by (induction ms) (simp_all add: requests_Cons requests_Nil)

lemma moves_keep:
  "calls (foldl runFrameRequest s (map MoveFrame ms)) = calls s
   \<and> isTwoPoints (foldl runFrameRequest s (map MoveFrame ms)) = isTwoPoints s
   \<and> clientRects (foldl runFrameRequest s (map MoveFrame ms)) = clientRects s
   \<and> callbacks (foldl runFrameRequest s (map MoveFrame ms)) = callbacks s"
  by (induction ms arbitrary: s) simp_all

lemma filter_capture_optional:
  "filter isCaptureCall (if b then [OnSelectionBegin] else []) = []"
  "filter isCaptureCall (if b then [OnSelectionEnd r] else []) = []"
  by (simp_all add: isCaptureCall_def)

text \<open>
  Claim C7, as amended. In one-point mode, on a parent node that has a client
  rectangle, over pointer-down, any number of pointer-moves and pointer-up (animation
  frames anywhere between them), the selector acquires pointer capture exactly once,
  for the pointer of the down event, and then releases it exactly once, for the
  pointer of the up event: these two calls, in this order, are all the capture calls
  the sequence adds. The client rectangle is needed: the pointer-up body reads
  \<open>rect[0].left\<close> before it calls \<open>releasePointerCapture\<close>.
\<close>

theorem one_point_capture_balanced:
  assumes "filter (\<lambda>ev. ev \<noteq> AnimationFrame) evs =
             PointerDown d # map PointerMove ms @ [PointerUp u]"
    and "frameRequests s = []"
    and "\<not> isTwoPoints s"
    and "clientRects s \<noteq> []"
  shows "filter isCaptureCall (calls (deliver evs s)) =
           filter isCaptureCall (calls s)
             @ [SetPointerCapture (pointerId d), ReleasePointerCapture (pointerId u)]"
proof -
  have nk: "\<forall>ev\<in>set (PointerDown d # map PointerMove ms @ [PointerUp u]). \<not> isKeyEvent ev"
    by auto
  have rq: "requests (PointerDown d # map PointerMove ms @ [PointerUp u]) =
      DownFrame d # map MoveFrame ms @ [UpFrame u]"
    by (simp add: requests_Cons requests_append requests_moves requests_Nil)
  define s1 where "s1 = runFrameRequest s (DownFrame d)"
  define s2 where "s2 = foldl runFrameRequest s1 (map MoveFrame ms)"
  have d: "deliver evs s = (runFrameRequest s2 (UpFrame u))\<lparr>frameRequests := []\<rparr>"
    using deliver_frames [OF assms(1) nk assms(2)] by (simp add: rq s1_def s2_def)
  have c1: "calls s1 = calls s @ SetPointerCapture (pointerId d) #
                 (if onSelectionBegin (callbacks s) then [OnSelectionBegin] else [])"
    using assms(3) by (simp add: s1_def down_frame_one_point)
  have k2: "calls s2 = calls s1" "\<not> isTwoPoints s2" "clientRects s2 \<noteq> []"
    using assms(3,4) moves_keep [of s1 ms] by (simp_all add: s2_def s1_def)
  have c3: "calls (runFrameRequest s2 (UpFrame u)) =
      calls s2 @ ReleasePointerCapture (pointerId u) #
        (if onSelectionEnd (callbacks s2)
         then [OnSelectionEnd (commitRegion (crossA s2) (crossB s2))] else [])"
    using k2 by (simp add: up_frame_one_point)
  show ?thesis
    unfolding d by (simp add: c3 k2 c1 filter_capture_optional isCaptureCall_def)
qed

theorem one_point_capture_balanced_witness:
  "filter isCaptureCall (calls (deliver
      [PointerDown (pointerAt 10 10), PointerMove (pointerAt 20 20), AnimationFrame,
       PointerMove (pointerAt 50 40), PointerUp (pointerAt 50 40)] idleSelector)) =
     [SetPointerCapture 1, ReleasePointerCapture 1]"
  using one_point_capture_balanced
    [of "[PointerDown (pointerAt 10 10), PointerMove (pointerAt 20 20), AnimationFrame,
          PointerMove (pointerAt 50 40), PointerUp (pointerAt 50 40)]"
        "pointerAt 10 10" "[pointerAt 20 20, pointerAt 50 40]" "pointerAt 50 40" idleSelector]
  by (simp add: idleSelector_def pointerAt_def)

text \<open>
  The claim as written fails on a parent node without a client rectangle: the
  pointer-down body reads no rectangle and acquires the capture, the pointer-move and
  pointer-up bodies throw at \<open>rect[0].left\<close>, and the capture is never released.
\<close>

theorem one_point_capture_unreleased:
  "\<not> isTwoPoints detachedSelector
   \<and> filter isCaptureCall (calls (deliver
         [PointerDown (pointerAt 10 10), PointerMove (pointerAt 50 40),
          PointerUp (pointerAt 50 40)] detachedSelector)) =
       [SetPointerCapture 1]
   \<and> uncaught (deliver
         [PointerDown (pointerAt 10 10), PointerMove (pointerAt 50 40),
          PointerUp (pointerAt 50 40)] detachedSelector) =
       [TypeError, TypeError]
   \<and> filter isCaptureCall (calls (deliver
         [PointerDown (pointerAt 10 10), PointerUp (pointerAt 10 10)] detachedSelector)) =
       [SetPointerCapture 1]"
  by (simp add: detachedSelector_def eval_defs isCaptureCall_def)

lemma draggingSelector_eq:
  "draggingSelector =
     \<lparr>crossA = \<lparr>x = 10, y = 10, crossVisible = True\<rparr>,
      crossB = \<lparr>x = 50, y = 40, crossVisible = True\<rparr>,
      selectionBox = \<lparr>x = 10, y = 10, rect = \<lparr>width = 40, height = 30\<rparr>, rectVisible = True\<rparr>,
      mask = \<lparr>maskVisible = True\<rparr>,
      capturingState = True,
      isTwoPoints = False,
      selectionModificator = RECT,
      boundRect = \<lparr>width = 100, height = 100\<rparr>,
      callbacks = \<lparr>onSelectionBegin = True, onSelectionEnd = True\<rparr>,
      nodeVisible = True,
      clientRects = [\<lparr>width = 100, height = 100, left = 0, top' = 0\<rparr>],
      frameRequests = [],
      calls = [SetPointerCapture 1, OnSelectionBegin],
      uncaught = []\<rparr>"
  by (simp add: draggingSelector_def eval_defs)

lemma armedSelector_eq:
  "armedSelector =
     \<lparr>crossA = \<lparr>x = 5, y = 5, crossVisible = True\<rparr>,
      crossB = \<lparr>x = 25, y = 15, crossVisible = True\<rparr>,
      selectionBox = \<lparr>x = 5, y = 5, rect = \<lparr>width = 20, height = 10\<rparr>, rectVisible = True\<rparr>,
      mask = \<lparr>maskVisible = True\<rparr>,
      capturingState = True,
      isTwoPoints = True,
      selectionModificator = RECT,
      boundRect = \<lparr>width = 100, height = 100\<rparr>,
      callbacks = \<lparr>onSelectionBegin = True, onSelectionEnd = True\<rparr>,
      nodeVisible = True,
      clientRects = [\<lparr>width = 100, height = 100, left = 0, top' = 0\<rparr>],
      frameRequests = [],
      calls = [OnSelectionBegin],
      uncaught = []\<rparr>"
  by (simp add: armedSelector_def eval_defs)

lemma two_points_other_frames:
  assumes "isTwoPoints s" and "\<forall>e'. r \<noteq> UpFrame e'"
  shows "capturingState (runFrameRequest s r) = capturingState s
         \<and> calls (runFrameRequest s r) = calls s"
  using assms by (cases r) (simp_all add: body_defs split: sum.splits)

text \<open>
  Claim C10. In two-point mode the body of the pointer-down listener returns the
  selector unchanged: no field is written, no pointer capture is acquired and no
  callback is invoked, so dispatching the event and running the animation frame leaves
  the selector exactly as it was. In two-point mode no frame body other than that of
  pointer-up, and neither key listener, changes \<open>capturingState\<close> from false to true or
  makes a call; the pointer-up body of a selector that is not capturing sets
  \<open>capturingState\<close> and invokes \<open>onSelectionBegin\<close> when it is supplied.
\<close>

theorem pointer_down_two_points_noop:
  assumes "isTwoPoints s"
  shows "frameBody (DownFrame e) s = Inr s
         \<and> (frameRequests s = [] \<longrightarrow> deliver [PointerDown e] s = s)
         \<and> (\<forall>r. (\<forall>e'. r \<noteq> UpFrame e') \<longrightarrow>
               capturingState (runFrameRequest s r) = capturingState s
               \<and> calls (runFrameRequest s r) = calls s)
         \<and> (\<forall>k. capturingState (onKeyDown k s) = capturingState s
               \<and> calls (onKeyDown k s) = calls s
               \<and> (capturingState (onKeyUp k s) \<longrightarrow> capturingState s)
               \<and> calls (onKeyUp k s) = calls s)
         \<and> (\<not> capturingState s \<and> clientRects s \<noteq> [] \<longrightarrow>
               capturingState (runFrameRequest s (UpFrame e))
               \<and> calls (runFrameRequest s (UpFrame e)) =
                   calls s @ (if onSelectionBegin (callbacks s) then [OnSelectionBegin] else []))"
proof -
  have a: "frameBody (DownFrame e) s = Inr s"
    using assms by (simp add: onPointerDownFrame_def)
  have b: "frameRequests s = [] \<longrightarrow> deliver [PointerDown e] s = s"
    using assms
    by (simp add: deliver_def animationFrame_def requestAnimationFrame_def
          down_frame_two_points)
  have c: "\<forall>r. (\<forall>e'. r \<noteq> UpFrame e') \<longrightarrow>
               capturingState (runFrameRequest s r) = capturingState s
               \<and> calls (runFrameRequest s r) = calls s"
    using assms two_points_other_frames by blast
  have k: "\<forall>k. capturingState (onKeyDown k s) = capturingState s
               \<and> calls (onKeyDown k s) = calls s
               \<and> (capturingState (onKeyUp k s) \<longrightarrow> capturingState s)
               \<and> calls (onKeyUp k s) = calls s"
    by (simp add: onKeyDown_def onKeyUp_def Let_def)
  have u: "\<not> capturingState s \<and> clientRects s \<noteq> [] \<longrightarrow>
               capturingState (runFrameRequest s (UpFrame e))
               \<and> calls (runFrameRequest s (UpFrame e)) =
                   calls s @ (if onSelectionBegin (callbacks s) then [OnSelectionBegin] else [])"
  proof (intro impI)
    assume h: "\<not> capturingState s \<and> clientRects s \<noteq> []"
    then obtain p where "localPoint (clientRects s) e = Inr p"
      by (cases "clientRects s") (auto simp add: localPoint_def)
    then show "capturingState (runFrameRequest s (UpFrame e))
               \<and> calls (runFrameRequest s (UpFrame e)) =
                   calls s @ (if onSelectionBegin (callbacks s) then [OnSelectionBegin] else [])"
      using assms h by (simp add: up_frame_two_points_idle)
  qed
  from a b c k u show ?thesis by blast
qed

theorem pointer_down_two_points_noop_witness:
  "isTwoPoints armedSelector
   \<and> frameBody (DownFrame (pointerAt 5 5)) armedSelector = Inr armedSelector
   \<and> deliver [PointerDown (pointerAt 5 5)] armedSelector = armedSelector
   \<and> calls (runFrameRequest armedSelector (MoveFrame (pointerAt 7 7))) = calls armedSelector"
  using pointer_down_two_points_noop [of armedSelector "pointerAt 5 5"]
  by (simp add: armedSelector_eq)

text \<open>
  Claim C5 does not hold of the code. In one-point mode the pointer-up body never reads
  \<open>capturingState\<close>: on a selector that is not capturing it still releases pointer
  capture and invokes \<open>onSelectionEnd\<close> with the region spanned by crossA and crossB.
  A pointer-up on the idle selector commits a region of zero size at the origin; a
  second pointer-up after a finished drag commits the region of that drag again. The
  two-point branch of the same body commits only when \<open>capturingState\<close> is set.
\<close>

theorem stray_pointer_up_commits:
  "\<not> isTwoPoints idleSelector \<and> \<not> capturingState idleSelector
   \<and> calls (deliver [PointerUp (pointerAt 10 10)] idleSelector) =
       [ReleasePointerCapture 1, OnSelectionEnd (RectRegion 0 0 0 0)]
   \<and> calls (deliver [PointerMove (pointerAt 10 10), PointerDown (pointerAt 10 10),
                     PointerMove (pointerAt 50 40), PointerUp (pointerAt 50 40),
                     PointerUp (pointerAt 50 40)] idleSelector) =
       [SetPointerCapture 1, OnSelectionBegin,
        ReleasePointerCapture 1, OnSelectionEnd (RectRegion 10 10 40 30),
        ReleasePointerCapture 1, OnSelectionEnd (RectRegion 10 10 40 30)]"
  by (simp add: eval_defs)

text \<open>
  Claim C4, as amended. A key-up with ctrl released, received in two-point mode,
  leaves two-point mode and resets \<open>capturingState\<close> without any call on the callbacks
  or the parent node. It moves crossA onto crossB (\<open>moveCross(this.crossA,
  this.crossB)\<close>: crossA takes the position of crossB, clamped to the bound rectangle,
  which is that position itself when crossB lies inside it); crossB stays where it is.
  It hides crossB, the selection box and the mask.
\<close>

theorem ctrl_up_cancels:
  assumes "\<not> ctrlKey e" and "isTwoPoints s"
  shows "\<not> isTwoPoints (onKeyUp e s)
         \<and> \<not> capturingState (onKeyUp e s)
         \<and> calls (onKeyUp e s) = calls s
         \<and> x (crossA (onKeyUp e s)) = x (boundToRect (boundRect s) (crossB s))
         \<and> y (crossA (onKeyUp e s)) = y (boundToRect (boundRect s) (crossB s))
         \<and> (0 \<le> x (crossB s) \<and> x (crossB s) \<le> width (boundRect s)
              \<and> 0 \<le> y (crossB s) \<and> y (crossB s) \<le> height (boundRect s) \<longrightarrow>
              x (crossA (onKeyUp e s)) = x (crossB s) \<and> y (crossA (onKeyUp e s)) = y (crossB s))
         \<and> x (crossB (onKeyUp e s)) = x (crossB s)
         \<and> y (crossB (onKeyUp e s)) = y (crossB s)
         \<and> \<not> crossVisible (crossB (onKeyUp e s))
         \<and> \<not> rectVisible (selectionBox (onKeyUp e s))
         \<and> \<not> maskVisible (mask (onKeyUp e s))"
  using assms
  by (simp add: onKeyUp_def Let_def elem_defs boundToRect_def)

theorem ctrl_up_cancels_witness:
  "isTwoPoints armedSelector \<and> capturingState armedSelector
   \<and> \<not> isTwoPoints (onKeyUp (ctrlKeyEvent False) armedSelector)
   \<and> \<not> capturingState (onKeyUp (ctrlKeyEvent False) armedSelector)
   \<and> calls (onKeyUp (ctrlKeyEvent False) armedSelector) = calls armedSelector
   \<and> x (crossA (onKeyUp (ctrlKeyEvent False) armedSelector)) = 25
   \<and> y (crossA (onKeyUp (ctrlKeyEvent False) armedSelector)) = 15"
  using ctrl_up_cancels [of "ctrlKeyEvent False" armedSelector]
  by (simp add: armedSelector_eq ctrlKeyEvent_def)

text \<open>
  The claim as written has the two crosses the other way round: with crossA at (5,5)
  and crossB at (25,15), after the key-up crossB is still at (25,15), not at (5,5), and
  crossA has moved to (25,15).
\<close>

theorem ctrl_up_moves_crossA:
  "isTwoPoints armedSelector \<and> capturingState armedSelector
   \<and> x (crossA armedSelector) = 5 \<and> y (crossA armedSelector) = 5
   \<and> x (crossB armedSelector) = 25 \<and> y (crossB armedSelector) = 15
   \<and> x (crossB (onKeyUp (ctrlKeyEvent False) armedSelector)) = 25
   \<and> y (crossB (onKeyUp (ctrlKeyEvent False) armedSelector)) = 15
   \<and> x (crossA (onKeyUp (ctrlKeyEvent False) armedSelector)) = 25
   \<and> y (crossA (onKeyUp (ctrlKeyEvent False) armedSelector)) = 15"
  by (simp add: armedSelector_eq ctrlKeyEvent_def onKeyUp_def Let_def elem_defs boundToRect_def)

lemma deliver_down:
  assumes "frameRequests t = []"
  shows "deliver [PointerDown e] t = (runFrameRequest t (DownFrame e))\<lparr>frameRequests := []\<rparr>"
  using deliver_frames [of "[PointerDown e]" "[PointerDown e]" t] assms
  by (simp add: requests_def)

text \<open>
  Claim C6, as amended. \<open>hide()\<close> hides the selector's node, crossA, crossB and the
  mask; it writes neither \<open>capturingState\<close> nor the selection box and makes no call.
  In one-point mode, with crossA inside the bound rectangle, \<open>show()\<close> followed by a
  pointer-down starts a capture anew whatever \<open>capturingState\<close> was: the flag is set,
  crossB is snapped onto crossA, the selection box has zero size at crossA, the mask,
  crossB and the box are shown, pointer capture is acquired and \<open>onSelectionBegin\<close> is
  invoked when supplied.
\<close>

theorem hide_keeps_capture:
  "\<not> nodeVisible (hide s)
   \<and> \<not> crossVisible (crossA (hide s)) \<and> \<not> crossVisible (crossB (hide s))
   \<and> \<not> maskVisible (mask (hide s))
   \<and> capturingState (hide s) = capturingState s
   \<and> selectionBox (hide s) = selectionBox s
   \<and> calls (hide s) = calls s
   \<and> (\<not> isTwoPoints s \<and> frameRequests s = []
        \<and> 0 \<le> x (crossA s) \<and> x (crossA s) \<le> width (boundRect s)
        \<and> 0 \<le> y (crossA s) \<and> y (crossA s) \<le> height (boundRect s) \<longrightarrow>
      capturingState (deliver [PointerDown e] (show' (hide s)))
      \<and> x (crossB (deliver [PointerDown e] (show' (hide s)))) = x (crossA s)
      \<and> y (crossB (deliver [PointerDown e] (show' (hide s)))) = y (crossA s)
      \<and> x (selectionBox (deliver [PointerDown e] (show' (hide s)))) = x (crossA s)
      \<and> y (selectionBox (deliver [PointerDown e] (show' (hide s)))) = y (crossA s)
      \<and> rect (selectionBox (deliver [PointerDown e] (show' (hide s)))) = \<lparr>width = 0, height = 0\<rparr>
      \<and> nodeVisible (deliver [PointerDown e] (show' (hide s)))
      \<and> crossVisible (crossA (deliver [PointerDown e] (show' (hide s))))
      \<and> crossVisible (crossB (deliver [PointerDown e] (show' (hide s))))
      \<and> rectVisible (selectionBox (deliver [PointerDown e] (show' (hide s))))
      \<and> maskVisible (mask (deliver [PointerDown e] (show' (hide s))))
      \<and> calls (deliver [PointerDown e] (show' (hide s))) =
          calls s @ SetPointerCapture (pointerId e) #
            (if onSelectionBegin (callbacks s) then [OnSelectionBegin] else []))"
proof -
  define t where "t = show' (hide s)"
  have t: "t = s\<lparr>nodeVisible := True,
                 crossA := (crossA s)\<lparr>crossVisible := True\<rparr>,
                 crossB := (crossB s)\<lparr>crossVisible := False\<rparr>,
                 mask := \<lparr>maskVisible = False\<rparr>\<rparr>"
    by (simp add: t_def hide_def show'_def Let_def elem_defs)
  have h: "\<not> nodeVisible (hide s)
   \<and> \<not> crossVisible (crossA (hide s)) \<and> \<not> crossVisible (crossB (hide s))
   \<and> \<not> maskVisible (mask (hide s))
   \<and> capturingState (hide s) = capturingState s
   \<and> selectionBox (hide s) = selectionBox s
   \<and> calls (hide s) = calls s"
    by (simp add: hide_def Let_def elem_defs)
  have d: "\<not> isTwoPoints s \<and> frameRequests s = []
        \<and> 0 \<le> x (crossA s) \<and> x (crossA s) \<le> width (boundRect s)
        \<and> 0 \<le> y (crossA s) \<and> y (crossA s) \<le> height (boundRect s) \<longrightarrow>
      capturingState (deliver [PointerDown e] t)
      \<and> x (crossB (deliver [PointerDown e] t)) = x (crossA s)
      \<and> y (crossB (deliver [PointerDown e] t)) = y (crossA s)
      \<and> x (selectionBox (deliver [PointerDown e] t)) = x (crossA s)
      \<and> y (selectionBox (deliver [PointerDown e] t)) = y (crossA s)
      \<and> rect (selectionBox (deliver [PointerDown e] t)) = \<lparr>width = 0, height = 0\<rparr>
      \<and> nodeVisible (deliver [PointerDown e] t)
      \<and> crossVisible (crossA (deliver [PointerDown e] t))
      \<and> crossVisible (crossB (deliver [PointerDown e] t))
      \<and> rectVisible (selectionBox (deliver [PointerDown e] t))
      \<and> maskVisible (mask (deliver [PointerDown e] t))
      \<and> calls (deliver [PointerDown e] t) =
          calls s @ SetPointerCapture (pointerId e) #
            (if onSelectionBegin (callbacks s) then [OnSelectionBegin] else [])"
  proof (intro impI)
    assume a: "\<not> isTwoPoints s \<and> frameRequests s = []
        \<and> 0 \<le> x (crossA s) \<and> x (crossA s) \<le> width (boundRect s)
        \<and> 0 \<le> y (crossA s) \<and> y (crossA s) \<le> height (boundRect s)"
    have one: "\<not> isTwoPoints t" and fr: "frameRequests t = []"
      using a by (simp_all add: t)
    have b: "boundToRect (boundRect t) (crossA t) = \<lparr>x = x (crossA s), y = y (crossA s)\<rparr>"
      using a by (simp add: t boundToRect_def)
    have r: "runFrameRequest t (DownFrame e) =
      t\<lparr>capturingState := True,
        crossB := \<lparr>x = x (crossA s), y = y (crossA s), crossVisible = True\<rparr>,
        selectionBox := showRect (moveSelectionBox (selectionBox t) (crossA t)
                          \<lparr>x = x (crossA s), y = y (crossA s)\<rparr>),
        mask := \<lparr>maskVisible = True\<rparr>,
        calls := calls t @ SetPointerCapture (pointerId e) #
                   (if onSelectionBegin (callbacks t) then [OnSelectionBegin] else [])\<rparr>"
      using down_frame_one_point [OF one, of e] b by simp
    have box: "showRect (moveSelectionBox (selectionBox t) (crossA t)
                          \<lparr>x = x (crossA s), y = y (crossA s)\<rparr>) =
         (selectionBox s)\<lparr>x := x (crossA s), y := y (crossA s),
            rect := \<lparr>width = 0, height = 0\<rparr>, rectVisible := True\<rparr>"
      by (simp add: t moveSelectionBox_def moveRect_def resizeRect_def showRect_def Let_def)
    show "capturingState (deliver [PointerDown e] t)
      \<and> x (crossB (deliver [PointerDown e] t)) = x (crossA s)
      \<and> y (crossB (deliver [PointerDown e] t)) = y (crossA s)
      \<and> x (selectionBox (deliver [PointerDown e] t)) = x (crossA s)
      \<and> y (selectionBox (deliver [PointerDown e] t)) = y (crossA s)
      \<and> rect (selectionBox (deliver [PointerDown e] t)) = \<lparr>width = 0, height = 0\<rparr>
      \<and> nodeVisible (deliver [PointerDown e] t)
      \<and> crossVisible (crossA (deliver [PointerDown e] t))
      \<and> crossVisible (crossB (deliver [PointerDown e] t))
      \<and> rectVisible (selectionBox (deliver [PointerDown e] t))
      \<and> maskVisible (mask (deliver [PointerDown e] t))
      \<and> calls (deliver [PointerDown e] t) =
          calls s @ SetPointerCapture (pointerId e) #
            (if onSelectionBegin (callbacks s) then [OnSelectionBegin] else [])"
      unfolding deliver_down [OF fr] r box
      by (simp add: t)
  qed
  from h d show ?thesis
    unfolding t_def by blast
qed

theorem hide_keeps_capture_witness:
  "capturingState draggingSelector
   \<and> capturingState (hide draggingSelector)
   \<and> \<not> crossVisible (crossA (hide draggingSelector))
   \<and> capturingState (deliver [PointerDown (pointerAt 50 40)] (show' (hide draggingSelector)))
   \<and> x (crossB (deliver [PointerDown (pointerAt 50 40)] (show' (hide draggingSelector)))) = 10
   \<and> calls (deliver [PointerDown (pointerAt 50 40)] (show' (hide draggingSelector))) =
       [SetPointerCapture 1, OnSelectionBegin, SetPointerCapture 1, OnSelectionBegin]"
  using hide_keeps_capture [of draggingSelector "pointerAt 50 40"]
  by (simp add: draggingSelector_eq pointerAt_def)

text \<open>
  The claim as written fails in the middle of a drag: after \<open>hide()\<close> the flag
  \<open>capturingState\<close> is still set and the selection box still carries its visible flag.
\<close>

theorem hide_mid_capture_keeps_state:
  "capturingState draggingSelector
   \<and> capturingState (hide draggingSelector)
   \<and> rectVisible (selectionBox (hide draggingSelector))"
  by (simp add: draggingSelector_eq hide_def Let_def elem_defs)

section \<open>Properties of the CSV export\<close>

lemma skipAssetTags_iff:
  "skipAssetTags reg ts assetProps \<longleftrightarrow>
     ts \<noteq> [] \<and> (left (boundingBox reg) + width (boundingBox reg) > width assetProps
                \<or> top' (boundingBox reg) + height (boundingBox reg) > height assetProps)"
  by (induction ts) (auto simp add: Let_def)

lemma skipAsset_iff:
  "skipAsset rs assetProps \<longleftrightarrow>
     (\<exists>reg\<in>set rs. tags reg \<noteq> []
        \<and> (left (boundingBox reg) + width (boundingBox reg) > width assetProps
           \<or> top' (boundingBox reg) + height (boundingBox reg) > height assetProps))"
  by (induction rs) (auto simp add: skipAssetTags_iff)

lemma popRegions_take:
  "popRegions i rs = take ((length rs + i) div 2) rs"
proof (induction i rs rule: popRegions.induct)
  case (1 i rs)
  show ?case
  proof (cases "i < length rs")
    case True
    then have "popRegions i rs = popRegions (Suc i) (butlast rs)"
      by (subst popRegions.simps) simp
    also have "\<dots> = take ((length (butlast rs) + Suc i) div 2) (butlast rs)"
      using 1 True by simp
    also have "\<dots> = take ((length rs + i) div 2) rs"
    proof -
      have n: "length (butlast rs) + Suc i = length rs + i"
        using True by simp
      have le: "(length rs + i) div 2 \<le> length rs - 1"
        using True by arith
      have "take ((length rs + i) div 2) (butlast rs) =
          take (min ((length rs + i) div 2) (length rs - 1)) rs"
        by (simp add: butlast_conv_take)
      with le show ?thesis
        unfolding n by (simp add: min_absorb1)
    qed
    finally show ?thesis .
  next
    case False
    then show ?thesis by (subst popRegions.simps) simp
  qed
qed

lemma popRegions_0: "popRegions 0 rs = take (length rs div 2) rs"
  using popRegions_take [of 0 rs] by simp

lemma pushRecords_tags:
  "foldl (\<lambda>items' tag. items' @ [f tag]) items ts = items @ map f ts"
  by (induction ts arbitrary: items) simp_all

lemma pushRecords_eq:
  "pushRecords nm items rs = items @ concat (map (regionRecords nm) rs)"
  by (induction rs arbitrary: items)
     (simp_all add: pushRecords_def pushRecords_tags regionRecords_def)


lemma exportAsset_dataItems:
  "dataItems (exportAsset options rd st m) = dataItems st @ assetRecords rd m"
proof (cases "rejected rd m")
  case True
  then show ?thesis
    by (auto simp add: exportAsset_def rejectAsset_def Let_def assetRecords_def rejected_def
          skipAsset_iff)
next
  case False
  then show ?thesis
    by (auto simp add: exportAsset_def Let_def assetRecords_def rejected_def
          skipAsset_iff pushRecords_eq)
qed

lemma exportAsset_assets:
  "assets (exportAsset options rd st m) = assets st @ [exportedAsset rd m]"
proof (cases "rejected rd m")
  case True
  then show ?thesis
    by (auto simp add: exportAsset_def rejectAsset_def Let_def exportedAsset_def rejected_def
          skipAsset_iff)
next
  case False
  then show ?thesis
    by (auto simp add: exportAsset_def Let_def exportedAsset_def rejected_def skipAsset_iff)
qed

lemma foldl_exportAsset:
  "dataItems (foldl (exportAsset options rd) st ms) = dataItems st @ concat (map (assetRecords rd) ms)
   \<and> assets (foldl (exportAsset options rd) st ms) = assets st @ map (exportedAsset rd) ms"
  by (induction ms arbitrary: st) (simp_all add: exportAsset_dataItems exportAsset_assets)

lemma export'_eq:
  "dataItems (export' options rd ms) = concat (map (assetRecords rd) ms)"
  "assets (export' options rd ms) = map (exportedAsset rd) ms"
  by (simp_all add: export'_def foldl_exportAsset)

text \<open>
  The loop that is meant to empty the regions stops half way: the iterator's index
  meets the shrinking length after half of the elements have been popped.
\<close>

lemma popRegions_leaves_half:
  "length (popRegions 0 rs) = length rs div 2"
  by (simp add: popRegions_0)

lemma rejected_asset_keeps_regions:
  "regions (hd (assets (export' sampleOptions (\<lambda>a. \<lparr>width = 100, height = 90\<rparr>) [sampleAsset])))
     = [hd (regions sampleAsset)]"
  by (simp add: export'_eq exportedAsset_def rejected_def sampleAsset_def popRegions_0)


text \<open>
  Claim C8, as amended. An asset that has a region with at least one tag whose box
  exceeds the measured size (left+width beyond the measured width, or top+height
  beyond the measured height), or whose recorded size is not its measured size, adds
  no record to the export: the records of the whole export are those of the export
  without this asset. The asset comes back with its state set to \<open>NotVisited\<close>.
\<close>

theorem rejected_asset_exports_nothing:
  assumes "(\<exists>reg\<in>set (regions m). tags reg \<noteq> []
          \<and> (left (boundingBox reg) + width (boundingBox reg) > width (rd (asset m))
             \<or> top' (boundingBox reg) + height (boundingBox reg) > height (rd (asset m))))
      \<or> width (size' (asset m)) \<noteq> width (rd (asset m))
      \<or> height (size' (asset m)) \<noteq> height (rd (asset m))"
  shows "dataItems (exportAsset options rd st m) = dataItems st
         \<and> dataItems (export' options rd (ms @ m # ms')) = dataItems (export' options rd (ms @ ms'))
         \<and> state (asset (assets (export' options rd (ms @ m # ms')) ! length ms)) = NotVisited
         \<and> name (asset (assets (export' options rd (ms @ m # ms')) ! length ms)) = name (asset m)"
proof -
  have r: "rejected rd m"
    using assms by (simp add: rejected_def)
  then have a: "assetRecords rd m = []"
    by (simp add: assetRecords_def)
  have "map (exportedAsset rd) (ms @ m # ms') ! length ms = exportedAsset rd m"
    by (simp add: nth_append)
  with r a show ?thesis
    by (simp add: exportAsset_dataItems export'_eq exportedAsset_def)
qed

theorem rejected_asset_exports_nothing_witness:
  "dataItems (export' sampleOptions (\<lambda>a. \<lparr>width = 100, height = 90\<rparr>) [sampleAsset]) = []
   \<and> state (asset (assets (export' sampleOptions (\<lambda>a. \<lparr>width = 100, height = 90\<rparr>) [sampleAsset]) ! 0))
       = NotVisited"
  using rejected_asset_exports_nothing
    [of sampleAsset "\<lambda>a. \<lparr>width = 100, height = 90\<rparr>" sampleOptions
        "\<lparr>dataItems = [], assets = [], effects = []\<rparr>" "[]" "[]"]
  by (simp add: sampleAsset_def export'_def)

text \<open>
  The claim as written fails for a box that exceeds the image but belongs to a region
  without tags: the check runs once per tag, so the asset is exported, its records are
  emitted, its regions and its state stay as they were.
\<close>

theorem untagged_out_of_bounds_exported:
  "export' sampleOptions measured100 [sampleAsset] =
     \<lparr>dataItems = [\<lparr>image' = ''a.jpg'', xmin = 0, ymin = 0, xmax = 10, ymax = 10, label = ''cat''\<rparr>],
      assets = [sampleAsset],
      effects = []\<rparr>
   \<and> left (boundingBox (hd (regions sampleAsset))) + width (boundingBox (hd (regions sampleAsset)))
       > width (measured100 (asset sampleAsset))
   \<and> length (regions sampleAsset) = 2
   \<and> state (asset sampleAsset) = Tagged"
  by (simp add: export'_def exportAsset_def rejectAsset_def pushRecords_def Let_def
        sampleAsset_def sampleOptions_def measured100_def)

lemma skipAsset_untagged:
  "tags reg = [] \<Longrightarrow> skipAsset (rs1 @ reg # rs2) assetProps = skipAsset (rs1 @ rs2) assetProps"
  by (auto simp add: skipAsset_iff)

text \<open>
  Claim C9. A region without tags is never tested against the measured size: it can
  be removed from the list without changing the outcome of the check, and an asset all
  of whose regions have no tags is not skipped for out-of-bounds geometry. Such
  regions push no record. The loop pushes one record for every pair of a region and
  one of its tags, with xmax = xmin + width and ymax = ymin + height of the region's
  box.
\<close>

theorem untagged_regions_not_checked:
  "(tags reg = [] \<longrightarrow>
      skipAsset (rs1 @ reg # rs2) assetProps = skipAsset (rs1 @ rs2) assetProps
      \<and> pushRecords nm items (rs1 @ reg # rs2) = pushRecords nm items (rs1 @ rs2))
   \<and> ((\<forall>r\<in>set rs. tags r = []) \<longrightarrow>
        \<not> skipAsset rs assetProps \<and> pushRecords nm items rs = items)
   \<and> pushRecords nm items rs = items @ concat (map (regionRecords nm) rs)
   \<and> length (regionRecords nm reg) = length (tags reg)
   \<and> (\<forall>d\<in>set (regionRecords nm reg).
        image' d = nm \<and> label d \<in> set (tags reg)
        \<and> xmin d = left (boundingBox reg) \<and> ymin d = top' (boundingBox reg)
        \<and> xmax d = xmin d + width (boundingBox reg)
        \<and> ymax d = ymin d + height (boundingBox reg))"
proof -
  have a: "tags reg = [] \<longrightarrow>
      skipAsset (rs1 @ reg # rs2) assetProps = skipAsset (rs1 @ rs2) assetProps
      \<and> pushRecords nm items (rs1 @ reg # rs2) = pushRecords nm items (rs1 @ rs2)"
    by (simp add: skipAsset_untagged pushRecords_eq regionRecords_def)
  have b: "(\<forall>r\<in>set rs. tags r = []) \<longrightarrow>
        \<not> skipAsset rs assetProps \<and> pushRecords nm items rs = items"
    by (auto simp add: skipAsset_iff pushRecords_eq regionRecords_def)
  have c: "\<forall>d\<in>set (regionRecords nm reg).
        image' d = nm \<and> label d \<in> set (tags reg)
        \<and> xmin d = left (boundingBox reg) \<and> ymin d = top' (boundingBox reg)
        \<and> xmax d = xmin d + width (boundingBox reg)
        \<and> ymax d = ymin d + height (boundingBox reg)"
    by (auto simp add: regionRecords_def)
  from a b c show ?thesis
    by (simp add: pushRecords_eq regionRecords_def)
qed

theorem untagged_regions_not_checked_witness:
  "\<not> skipAsset [hd (regions sampleAsset)] \<lparr>width = 100, height = 100\<rparr>
   \<and> pushRecords ''a.jpg'' [] [hd (regions sampleAsset)] = []
   \<and> skipAsset (regions sampleAsset) \<lparr>width = 5, height = 5\<rparr>
       = skipAsset (tl (regions sampleAsset)) \<lparr>width = 5, height = 5\<rparr>"
  using untagged_regions_not_checked
    [of "hd (regions sampleAsset)" "[]" "tl (regions sampleAsset)" "\<lparr>width = 5, height = 5\<rparr>"
        "''a.jpg''" "[]" "[hd (regions sampleAsset)]"]
    untagged_regions_not_checked
    [of "hd (regions sampleAsset)" "[]" "tl (regions sampleAsset)" "\<lparr>width = 100, height = 100\<rparr>"
        "''a.jpg''" "[]" "[hd (regions sampleAsset)]"]
  by (simp add: sampleAsset_def)

end
